theory Spec2Isabelle
  imports Complex_Main "HOL-Library.Multiset"
begin

section \<open>Python library behaviour used by the scanner\<close>

text \<open>
  Python's \<^verbatim>\<open>float\<close> is modelled by \<^typ>\<open>real\<close>: every arithmetic step is exact.
  Python's \<^verbatim>\<open>int\<close> is \<^typ>\<open>int\<close>. Strings are \<^typ>\<open>string\<close> (ASCII).
  A Python exception is a value of \<open>exn\<close>; a call that may raise returns \<open>exn + 'a\<close>.
\<close>

datatype exn =
    ValueError
  | OverflowError
  | KeyError string
  | TypeError
  | AttributeError
  | JSONDecodeError
  | HTTPError int
  | Timeout
  | ConnectionError string

subsection \<open>\<^verbatim>\<open>datetime\<close>: naive date and time values\<close>

record datetime =
  dt_year :: int
  dt_month :: int
  dt_day :: int
  dt_hour :: int
  dt_minute :: int
  dt_second :: int
  dt_microsecond :: int

definition is_leap :: "int \<Rightarrow> bool" where
  "is_leap y = (y mod 4 = 0 \<and> (y mod 100 \<noteq> 0 \<or> y mod 400 = 0))"

definition days_before_year :: "int \<Rightarrow> int" where
  "days_before_year y = (let y1 = y - 1 in y1 * 365 + y1 div 4 - y1 div 100 + y1 div 400)"

definition DAYS_IN_MONTH :: "int list" where
  "DAYS_IN_MONTH = [-1, 31, 28, 31, 30, 31, 30, 31, 31, 30, 31, 30, 31]"

definition DAYS_BEFORE_MONTH :: "int list" where
  "DAYS_BEFORE_MONTH = [-1, 0, 31, 59, 90, 120, 151, 181, 212, 243, 273, 304, 334]"

text \<open>Both tables are read at month numbers 1..12 only.\<close>

definition days_in_month :: "int \<Rightarrow> int \<Rightarrow> int" where
  "days_in_month y m = (if m = 2 \<and> is_leap y then 29 else DAYS_IN_MONTH ! nat m)"

definition days_before_month :: "int \<Rightarrow> int \<Rightarrow> int" where
  "days_before_month y m = DAYS_BEFORE_MONTH ! nat m + (if m > 2 \<and> is_leap y then 1 else 0)"

definition ymd2ord :: "int \<Rightarrow> int \<Rightarrow> int \<Rightarrow> int" where
  "ymd2ord y m d = days_before_year y + days_before_month y m + d"

definition toordinal :: "datetime \<Rightarrow> int" where
  "toordinal t = ymd2ord (dt_year t) (dt_month t) (dt_day t)"

definition MAXORDINAL :: int where
  "MAXORDINAL = 3652059"

text \<open>The checks of the \<^verbatim>\<open>datetime(...)\<close> constructor; a violation raises ValueError.\<close>

definition valid_datetime :: "datetime \<Rightarrow> bool" where
  "valid_datetime t =
     (1 \<le> dt_year t \<and> dt_year t \<le> 9999 \<and>
      1 \<le> dt_month t \<and> dt_month t \<le> 12 \<and>
      1 \<le> dt_day t \<and> dt_day t \<le> days_in_month (dt_year t) (dt_month t) \<and>
      0 \<le> dt_hour t \<and> dt_hour t \<le> 23 \<and>
      0 \<le> dt_minute t \<and> dt_minute t \<le> 59 \<and>
      0 \<le> dt_second t \<and> dt_second t \<le> 59 \<and>
      0 \<le> dt_microsecond t \<and> dt_microsecond t \<le> 999999)"

definition mk_datetime :: "int \<Rightarrow> int \<Rightarrow> int \<Rightarrow> int \<Rightarrow> int \<Rightarrow> int \<Rightarrow> int \<Rightarrow> exn + datetime" where
  "mk_datetime y m d hh mm ss us =
     (let t = \<lparr>dt_year = y, dt_month = m, dt_day = d, dt_hour = hh, dt_minute = mm,
                dt_second = ss, dt_microsecond = us\<rparr>
      in if valid_datetime t then Inr t else Inl ValueError)"

text \<open>
  \<^verbatim>\<open>(a - b).days\<close>: the difference is the timedelta of the ordinal, second and
  microsecond differences, normalised so that seconds and microseconds are non-negative;
  the day count is therefore rounded towards minus infinity.
\<close>

definition seconds_of_day :: "datetime \<Rightarrow> int" where
  "seconds_of_day t = dt_second t + dt_minute t * 60 + dt_hour t * 3600"

definition timedelta_us :: "int \<Rightarrow> int \<Rightarrow> int \<Rightarrow> int" where
  "timedelta_us d s us = (d * 86400 + s) * 1000000 + us"

definition sub_us :: "datetime \<Rightarrow> datetime \<Rightarrow> int" where
  "sub_us a b =
     timedelta_us (toordinal a - toordinal b) (seconds_of_day a - seconds_of_day b)
       (dt_microsecond a - dt_microsecond b)"

definition sub_days :: "datetime \<Rightarrow> datetime \<Rightarrow> int" where
  "sub_days a b = sub_us a b div 86400000000"

subsection \<open>\<^verbatim>\<open>datetime.strptime(s, '%Y-%m-%dT%H:%M:%SZ')\<close>\<close>

text \<open>
  The format is compiled to a regular expression, one group per directive, matched from
  the start of the string ignoring case, alternatives tried in order with backtracking:
  \<^verbatim>\<open>%Y = \d\d\d\d\<close>, \<^verbatim>\<open>%m = 1[0-2]|0[1-9]|[1-9]\<close>,
  \<^verbatim>\<open>%d = 3[0-1]|[1-2]\d|0[1-9]|[1-9]| [1-9]\<close>, \<^verbatim>\<open>%H = 2[0-3]|[0-1]\d|\d\<close>,
  \<^verbatim>\<open>%M = [0-5]\d|\d\<close>, \<^verbatim>\<open>%S = 6[0-1]|[0-5]\d|\d\<close>.
  A character class is the string of its members; an alternative is a list of classes;
  a group is a list of alternatives.
\<close>

fun match_classes :: "string list \<Rightarrow> string \<Rightarrow> (string \<times> string) option" where
  "match_classes [] s = Some ([], s)"
| "match_classes (cl # cls) [] = None"
| "match_classes (cl # cls) (c # s) =
     (if c \<in> set cl
      then (case match_classes cls s of None \<Rightarrow> None | Some (txt, rest) \<Rightarrow> Some (c # txt, rest))
      else None)"

fun match_groups :: "string list list list \<Rightarrow> string \<Rightarrow> (string list \<times> string) list" where
  "match_groups [] s = [([], s)]"
| "match_groups (g # gs) s =
     concat (map (\<lambda>alt. case match_classes alt s of
                           None \<Rightarrow> []
                         | Some (txt, rest) \<Rightarrow> map (\<lambda>(ts, r). (txt # ts, r)) (match_groups gs rest)) g)"

definition D09 :: string where "D09 = ''0123456789''"
definition D19 :: string where "D19 = ''123456789''"

definition created_at_regex :: "string list list list" where
  "created_at_regex =
     [ [[D09, D09, D09, D09]],
       [[''-'']],
       [[''1'', ''012''], [''0'', D19], [D19]],
       [[''-'']],
       [[''3'', ''01''], [''12'', D09], [''0'', D19], [D19], ['' '', D19]],
       [[''Tt'']],
       [[''2'', ''0123''], [''01'', D09], [D09]],
       [['':'']],
       [[''012345'', D09], [D09]],
       [['':'']],
       [[''6'', ''01''], [''012345'', D09], [D09]],
       [[''Zz'']] ]"

definition digit_val :: "char \<Rightarrow> int option" where
  "digit_val c = map_of (zip D09 [0, 1, 2, 3, 4, 5, 6, 7, 8, 9]) c"

text \<open>\<^verbatim>\<open>int(text)\<close> on a matched group: decimal digits, surrounding blanks ignored.\<close>

definition int_of_text :: "string \<Rightarrow> int" where
  "int_of_text s = foldl (\<lambda>acc c. case digit_val c of None \<Rightarrow> acc | Some v \<Rightarrow> acc * 10 + v) 0 s"

definition strptime :: "string \<Rightarrow> exn + datetime" where
  "strptime s =
     (case match_groups created_at_regex s of
        [] \<Rightarrow> Inl ValueError
      | (ts, rest) # _ \<Rightarrow>
          if rest \<noteq> [] then Inl ValueError
          else (case ts of
                  [y, _, m, _, d, _, hh, _, mm, _, ss, _] \<Rightarrow>
                    mk_datetime (int_of_text y) (int_of_text m) (int_of_text d)
                      (int_of_text hh) (int_of_text mm) (int_of_text ss) 0
                | _ \<Rightarrow> Inl ValueError))"

text \<open>
  \<^verbatim>\<open>t - timedelta(days=n)\<close>: the time of day is kept and the date moves by \<open>n\<close> days;
  OverflowError when \<open>n\<close> is no timedelta or the date leaves years 1..9999.
\<close>

definition ord2ymd :: "int \<Rightarrow> int \<times> int \<times> int" where
  "ord2ymd ordinal =
     (let n = ordinal - 1;
          n400 = n div 146097; na = n mod 146097;
          n100 = na div 36524; nb = na mod 36524;
          n4 = nb div 1461; nc = nb mod 1461;
          n1 = nc div 365; nd = nc mod 365;
          year = n400 * 400 + 1 + n100 * 100 + n4 * 4 + n1
      in if n1 = 4 \<or> n100 = 4 then (year - 1, 12, 31)
         else
           let leapyear = (n1 = 3 \<and> (n4 \<noteq> 24 \<or> n100 = 3));
               month = (nd + 50) div 32;
               preceding = DAYS_BEFORE_MONTH ! nat month + (if month > 2 \<and> leapyear then 1 else 0)
           in if preceding > nd
              then (let month' = month - 1;
                        preceding' = preceding -
                          (DAYS_IN_MONTH ! nat month' + (if month' = 2 \<and> leapyear then 1 else 0))
                    in (year, month', nd - preceding' + 1))
              else (year, month, nd - preceding + 1))"

definition sub_timedelta_days :: "datetime \<Rightarrow> int \<Rightarrow> exn + datetime" where
  "sub_timedelta_days t n =
     (if \<bar>n\<bar> > 999999999 then Inl OverflowError
      else let d = toordinal t - n
           in if 0 < d \<and> d \<le> MAXORDINAL
              then (case ord2ymd d of
                      (y, m, dd) \<Rightarrow> Inr (t\<lparr>dt_year := y, dt_month := m, dt_day := dd\<rparr>))
              else Inl OverflowError)"

subsection \<open>Formatting numbers\<close>

definition digit_char :: "nat \<Rightarrow> char" where
  "digit_char n = D09 ! n"

fun str_nat :: "nat \<Rightarrow> string" where
  "str_nat n = (if n < 10 then [digit_char n] else str_nat (n div 10) @ [digit_char (n mod 10)])"

declare str_nat.simps [simp del]

definition zfill :: "nat \<Rightarrow> string \<Rightarrow> string" where
  "zfill w s = replicate (w - length s) CHR ''0'' @ s"

text \<open>\<^verbatim>\<open>t.strftime('%Y-%m-%d')\<close>, the year written with four digits.\<close>

definition strftime_ymd :: "datetime \<Rightarrow> string" where
  "strftime_ymd t =
     zfill 4 (str_nat (nat (dt_year t))) @ ''-'' @ zfill 2 (str_nat (nat (dt_month t))) @ ''-'' @
     zfill 2 (str_nat (nat (dt_day t)))"

text \<open>
  \<^verbatim>\<open>f"{x:.df}"\<close>: the value rounded to \<open>d\<close> decimals, ties to the even neighbour,
  with the sign of \<open>x\<close>.
\<close>

definition round_half_even :: "real \<Rightarrow> int" where
  "round_half_even x =
     (let f = \<lfloor>x\<rfloor>; r = x - of_int f
      in if r < 1 / 2 then f else if r > 1 / 2 then f + 1 else if even f then f else f + 1)"

definition format_f :: "nat \<Rightarrow> real \<Rightarrow> string" where
  "format_f d x =
     (let n = nat (round_half_even (\<bar>x\<bar> * 10 ^ d))
      in (if x < 0 then ''-'' else []) @ str_nat (n div 10 ^ d) @
         (if d = 0 then [] else ''.'' @ zfill d (str_nat (n mod 10 ^ d))))"

section \<open>The repository record and the scored record\<close>

text \<open>
  A repository is the JSON object of the search response; only the keys the scanner reads
  are kept. \<open>None\<close> is an absent key (for \<open>language\<close> also JSON null).
\<close>

record repo =
  full_name :: string
  stargazers_count :: "int option"
  forks_count :: "int option"
  watchers_count :: "int option"
  open_issues_count :: "int option"
  created_at :: "string option"
  has_wiki :: "bool option"
  topics :: "string list option"
  language :: "string option"

record scored =
  repo_of :: repo
  score :: real
  reasoning :: string

text \<open>\<^verbatim>\<open>d.get(key, default)\<close> and \<^verbatim>\<open>d[key]\<close>.\<close>

definition get_default :: "'a option \<Rightarrow> 'a \<Rightarrow> 'a" where
  "get_default v dflt = (case v of None \<Rightarrow> dflt | Some x \<Rightarrow> x)"

definition subscript :: "string \<Rightarrow> 'a option \<Rightarrow> exn + 'a" where
  "subscript key v = (case v of None \<Rightarrow> Inl (KeyError key) | Some x \<Rightarrow> Inr x)"

definition py_max :: "real \<Rightarrow> real \<Rightarrow> real" where
  "py_max a b = (if b > a then b else a)"

section \<open>\<^verbatim>\<open>GitHubTrendingScanner.calculate_interest_score\<close> (src/functions.py)\<close>

definition base_popularity :: "repo \<Rightarrow> real" where
  "base_popularity r =
     of_int (get_default (stargazers_count r) 0) * 1.0 +
     of_int (get_default (forks_count r) 0) * 2.0 +
     of_int (get_default (watchers_count r) 0) * 1.5"

text \<open>The body of the \<^verbatim>\<open>try\<close> block; \<open>now\<close> is what \<^verbatim>\<open>datetime.now()\<close> returns.\<close>

definition recency_try :: "datetime \<Rightarrow> repo \<Rightarrow> exn + real" where
  "recency_try now r =
     (case subscript ''created_at'' (created_at r) of
        Inl e \<Rightarrow> Inl e
      | Inr s \<Rightarrow>
          (case strptime s of
             Inl e \<Rightarrow> Inl e
           | Inr created_date \<Rightarrow>
               let days_old = sub_days now created_date
               in Inr (py_max 0.1 (1.0 - of_int days_old / 365))))"

definition recency_multiplier :: "datetime \<Rightarrow> repo \<Rightarrow> real" where
  "recency_multiplier now r = (case recency_try now r of Inl e \<Rightarrow> 0.5 | Inr v \<Rightarrow> v)"

definition activity_score :: "repo \<Rightarrow> real" where
  "activity_score r =
     of_int (get_default (open_issues_count r) 0) * 0.1 +
     (if get_default (has_wiki r) False then 10 else 0) +
     of_nat (length (get_default (topics r) [])) * 5"

definition language_multipliers :: "(string \<times> real) list" where
  "language_multipliers =
     [(''JavaScript'', 1.2), (''Python'', 1.3), (''TypeScript'', 1.1),
      (''Go'', 1.0), (''Rust'', 1.4), (''Swift'', 0.9), (''Kotlin'', 0.8),
      (''Java'', 1.1), (''C++'', 1.0), (''C#'', 0.9), (''PHP'', 0.8)]"

definition language_boost :: "repo \<Rightarrow> real" where
  "language_boost r =
     (case language r of
        None \<Rightarrow> 1.0
      | Some l \<Rightarrow> get_default (map_of language_multipliers l) 1.0)"

definition final_score :: "datetime \<Rightarrow> repo \<Rightarrow> real" where
  "final_score now r =
     (base_popularity r + activity_score r) * recency_multiplier now r * language_boost r"

definition reasoning_text :: "datetime \<Rightarrow> repo \<Rightarrow> string" where
  "reasoning_text now r =
     ''Pop: '' @ format_f 1 (base_popularity r) @
     '', Activity: '' @ format_f 1 (activity_score r) @
     '', Recency: '' @ format_f 2 (recency_multiplier now r) @
     '', Lang: '' @ format_f 1 (language_boost r)"

definition calculate_interest_score :: "datetime \<Rightarrow> repo \<Rightarrow> scored" where
  "calculate_interest_score now r =
     \<lparr>repo_of = r, score = final_score now r, reasoning = reasoning_text now r\<rparr>"

section \<open>The network, the user interface and the scanner object\<close>

text \<open>
  A call of \<^verbatim>\<open>requests.get\<close> is a request handed to the network, which answers with a
  response or raises. The network is a parameter \<open>net\<close> of every function that uses it,
  and each request issued is appended to \<open>requests_sent\<close>.
  \<^verbatim>\<open>st.warning\<close> and \<^verbatim>\<open>st.error\<close> append a notice (the message without its pictogram).
\<close>

record request =
  req_url :: string
  req_headers :: "(string \<times> string) list"
  param_q :: string
  param_sort :: string
  param_order :: string
  param_per_page :: int
  req_timeout :: "int option"

text \<open>
  The body of a response: no JSON at all, a JSON value that is no object, or an object
  with or without the key \<open>items\<close>.
\<close>

datatype json_body = NotJson | JsonOther | JsonObject "repo list option"

record response =
  status_code :: int
  resp_text :: string
  resp_body :: json_body

type_synonym net = "request \<Rightarrow> exn + response"

datatype notice = Warning string | Error string

text \<open>
  The scanner object (its request headers and its quota counter; the token is read by
  \<^verbatim>\<open>__init__\<close> only) together with the requests sent and the notices shown so far.
\<close>

record state =
  headers :: "(string \<times> string) list"
  rate_limit_remaining :: int
  requests_sent :: "request list"
  notices :: "notice list"

definition st_warning :: "string \<Rightarrow> state \<Rightarrow> state" where
  "st_warning msg s = s\<lparr>notices := notices s @ [Warning msg]\<rparr>"

definition st_error :: "string \<Rightarrow> state \<Rightarrow> state" where
  "st_error msg s = s\<lparr>notices := notices s @ [Error msg]\<rparr>"

definition GITHUB_API_BASE :: string where
  "GITHUB_API_BASE = ''https://api.github.com''"

definition str_int :: "int \<Rightarrow> string" where
  "str_int i = (if i < 0 then ''-'' else []) @ str_nat (nat \<bar>i\<bar>)"

definition str_exn :: "exn \<Rightarrow> string" where
  "str_exn e =
     (case e of
        ValueError \<Rightarrow> ''ValueError''
      | OverflowError \<Rightarrow> ''OverflowError''
      | KeyError k \<Rightarrow> k
      | TypeError \<Rightarrow> ''TypeError''
      | AttributeError \<Rightarrow> ''AttributeError''
      | JSONDecodeError \<Rightarrow> ''JSONDecodeError''
      | HTTPError c \<Rightarrow> str_int c
      | Timeout \<Rightarrow> ''Timeout''
      | ConnectionError m \<Rightarrow> m)"

text \<open>\<^verbatim>\<open>response.json()\<close>, \<^verbatim>\<open>data.get('items', [])\<close>, \<^verbatim>\<open>data["items"]\<close>,
  \<^verbatim>\<open>response.raise_for_status()\<close>.\<close>

definition json :: "response \<Rightarrow> exn + json_body" where
  "json resp = (case resp_body resp of NotJson \<Rightarrow> Inl JSONDecodeError | b \<Rightarrow> Inr b)"

definition get_items :: "json_body \<Rightarrow> exn + repo list" where
  "get_items data =
     (case data of JsonObject items \<Rightarrow> Inr (get_default items []) | _ \<Rightarrow> Inl AttributeError)"

definition subscript_items :: "json_body \<Rightarrow> exn + repo list" where
  "subscript_items data =
     (case data of JsonObject items \<Rightarrow> subscript ''items'' items | _ \<Rightarrow> Inl TypeError)"

definition raise_for_status :: "response \<Rightarrow> exn + unit" where
  "raise_for_status resp =
     (if 400 \<le> status_code resp \<and> status_code resp < 600
      then Inl (HTTPError (status_code resp)) else Inr ())"

definition requests_get :: "net \<Rightarrow> request \<Rightarrow> state \<Rightarrow> (exn + response) \<times> state" where
  "requests_get net req s = (net req, s\<lparr>requests_sent := requests_sent s @ [req]\<rparr>)"

text \<open>\<^verbatim>\<open>GitHubTrendingScanner.__init__\<close>\<close>

definition is_space :: "char \<Rightarrow> bool" where
  "is_space c =
     (c \<in> set [CHR '' '', CHR 0x09, CHR 0x0A, CHR 0x0B, CHR 0x0C, CHR 0x0D,
                CHR 0x1C, CHR 0x1D, CHR 0x1E, CHR 0x1F])"

definition strip :: "string \<Rightarrow> string" where
  "strip s = rev (dropWhile is_space (rev (dropWhile is_space s)))"

definition init :: "string option \<Rightarrow> state" where
  "init github_token =
     \<lparr>headers =
        [(''Accept'', ''application/vnd.github.v3+json'')] @
        (case github_token of
           None \<Rightarrow> []
         | Some tok \<Rightarrow>
             if tok \<noteq> [] \<and> strip tok \<noteq> [] then [(''Authorization'', ''token '' @ strip tok)]
             else []),
      rate_limit_remaining = 60,
      requests_sent = [],
      notices = []\<rparr>"

section \<open>\<^verbatim>\<open>GitHubTrendingScanner.search_repositories\<close> (src/functions.py)\<close>

text \<open>The body of the \<^verbatim>\<open>try\<close> block.\<close>

definition search_try :: "net \<Rightarrow> request \<Rightarrow> state \<Rightarrow> (exn + repo list) \<times> state" where
  "search_try net req s =
     (case requests_get net req s of
        (Inl e, s1) \<Rightarrow> (Inl e, s1)
      | (Inr resp, s1) \<Rightarrow>
          if status_code resp = 200 then
            (let s2 = s1\<lparr>rate_limit_remaining := rate_limit_remaining s1 - 1\<rparr>
             in case json resp of
                  Inl e \<Rightarrow> (Inl e, s2)
                | Inr data \<Rightarrow> (get_items data, s2))
          else if status_code resp = 403 then
            (Inr [], st_error
               ''GitHub API rate limit exceeded. Please add a GitHub token or try again later.'' s1)
          else if status_code resp = 422 then
            (Inr [], st_error (''Invalid search query: '' @ param_q req) s1)
          else
            (Inr [], st_error (''GitHub API error: '' @ str_int (status_code resp) @ '' - '' @
                                take 200 (resp_text resp)) s1))"

definition search_request :: "state \<Rightarrow> string \<Rightarrow> string \<Rightarrow> int \<Rightarrow> request" where
  "search_request s query sort_by per_page =
     \<lparr>req_url = GITHUB_API_BASE @ ''/search/repositories'',
      req_headers = headers s,
      param_q = query, param_sort = sort_by, param_order = ''desc'', param_per_page = per_page,
      req_timeout = Some 10\<rparr>"

definition search_repositories ::
  "net \<Rightarrow> string \<Rightarrow> string \<Rightarrow> int \<Rightarrow> state \<Rightarrow> (exn + repo list) \<times> state" where
  "search_repositories net query sort_by per_page s =
     (if rate_limit_remaining s \<le> 5 then
        (Inr [], st_warning ''GitHub API rate limit low. Consider adding a GitHub token.'' s)
      else
        (case search_try net (search_request s query sort_by per_page) s of
           (Inl Timeout, s') \<Rightarrow>
             (Inr [], st_error ''Request timed out. GitHub API might be slow.'' s')
         | (Inl e, s') \<Rightarrow>
             (Inr [], st_error (''Error fetching repositories: '' @ str_exn e) s')
         | (Inr items, s') \<Rightarrow> (Inr items, s')))"

section \<open>\<^verbatim>\<open>GitHubTrendingScanner.scan_trending_by_category\<close> (src/functions.py)\<close>

definition queries :: "string \<Rightarrow> (string \<times> string) list" where
  "queries date_threshold =
     [(''newly_created'', ''created:>'' @ date_threshold),
      (''recently_active'', ''pushed:>'' @ date_threshold @ '' stars:>10''),
      (''hot_topics'', ''good-first-issues:>0 created:>'' @ date_threshold),
      (''ai_ml_trending'', ''topic:machine-learning created:>'' @ date_threshold),
      (''web_dev_trending'', ''topic:react created:>'' @ date_threshold),
      (''devops_trending'', ''topic:docker created:>'' @ date_threshold),
      (''mobile_trending'', ''topic:android created:>'' @ date_threshold),
      (''breaking_out'', ''stars:100..1000 created:>'' @ date_threshold),
      (''hidden_gems'', ''stars:10..100 forks:>5 created:>'' @ date_threshold)]"

text \<open>
  \<^verbatim>\<open>sorted(xs, key=k, reverse=True)\<close>: the list is reversed, sorted by a stable ascending
  sort, and reversed again.
\<close>

definition sorted_reverse :: "('a \<Rightarrow> real) \<Rightarrow> 'a list \<Rightarrow> 'a list" where
  "sorted_reverse k xs = rev (sort_key k (rev xs))"

text \<open>
  The scoring loop. Every call of \<^verbatim>\<open>calculate_interest_score\<close> reads the clock anew:
  \<open>clock i\<close> is the \<open>i\<close>-th reading of \<^verbatim>\<open>datetime.now()\<close> during the scan, reading 0
  being the one for the date threshold.
\<close>

fun score_loop :: "(nat \<Rightarrow> datetime) \<Rightarrow> nat \<Rightarrow> scored list \<Rightarrow> repo list \<Rightarrow> scored list" where
  "score_loop clock i scored_repos [] = scored_repos"
| "score_loop clock i scored_repos (r # repos) =
     score_loop clock (Suc i) (scored_repos @ [calculate_interest_score (clock i) r]) repos"

definition scan_trending_by_category ::
  "net \<Rightarrow> (nat \<Rightarrow> datetime) \<Rightarrow> string \<Rightarrow> int \<Rightarrow> state \<Rightarrow> (exn + scored list) \<times> state" where
  "scan_trending_by_category net clock category days_back s =
     (case sub_timedelta_days (clock 0) days_back of
        Inl e \<Rightarrow> (Inl e, s)
      | Inr t \<Rightarrow>
          let date_threshold = strftime_ymd t in
          (case map_of (queries date_threshold) category of
             None \<Rightarrow> (Inr [], st_error (''Unknown category: '' @ category) s)
           | Some q \<Rightarrow>
               (case search_repositories net q ''stars'' 30 s of
                  (Inl e, s') \<Rightarrow> (Inl e, s')
                | (Inr repos, s') \<Rightarrow>
                    (Inr (sorted_reverse score (score_loop clock 1 [] repos)), s'))))"

section \<open>\<^verbatim>\<open>get_repos\<close> (src/main.py)\<close>

definition get_repos :: "net \<Rightarrow> string \<Rightarrow> string \<Rightarrow> string \<Rightarrow> int \<Rightarrow> exn + repo list" where
  "get_repos net lang sort_by order per_page =
     (let req = \<lparr>req_url = ''https://api.github.com/search/repositories'',
                  req_headers = [],
                  param_q = ''language:'' @ lang, param_sort = sort_by, param_order = order,
                  param_per_page = per_page, req_timeout = None\<rparr>
      in case net req of
           Inl e \<Rightarrow> Inl e
         | Inr resp \<Rightarrow>
             (case raise_for_status resp of
                Inl e \<Rightarrow> Inl e
              | Inr u \<Rightarrow> (case json resp of Inl e \<Rightarrow> Inl e | Inr data \<Rightarrow> subscript_items data)))"

section \<open>The second copy of the scanner (src/test.py)\<close>

definition calculate_interest_score_test :: "datetime \<Rightarrow> repo \<Rightarrow> scored" where
  "calculate_interest_score_test now repo =
     (let base_popularity =
            of_int (get_default (stargazers_count repo) 0) * 1.0 +
            of_int (get_default (forks_count repo) 0) * 2.0 +
            of_int (get_default (watchers_count repo) 0) * 1.5;
          recency_multiplier =
            (case (case subscript ''created_at'' (created_at repo) of
                     Inl e \<Rightarrow> Inl e
                   | Inr s \<Rightarrow>
                       (case strptime s of
                          Inl e \<Rightarrow> Inl e
                        | Inr created_date \<Rightarrow>
                            let days_old = sub_days now created_date
                            in Inr (py_max 0.1 (1.0 - of_int days_old / 365)))) of
               Inl e \<Rightarrow> 0.5
             | Inr v \<Rightarrow> v);
          activity_score =
            of_int (get_default (open_issues_count repo) 0) * 0.1 +
            (if get_default (has_wiki repo) False then 10 else 0) +
            of_nat (length (get_default (topics repo) [])) * 5;
          language_multipliers =
            [(''JavaScript'', 1.2), (''Python'', 1.3), (''TypeScript'', 1.1),
             (''Go'', 1.0), (''Rust'', 1.4), (''Swift'', 0.9), (''Kotlin'', 0.8),
             (''Java'', 1.1), (''C++'', 1.0), (''C#'', 0.9), (''PHP'', 0.8)];
          language_boost =
            (case language repo of
               None \<Rightarrow> 1.0
             | Some l \<Rightarrow> get_default (map_of language_multipliers l) 1.0);
          final_score = (base_popularity + activity_score) * recency_multiplier * language_boost;
          reasoning =
            ''Pop: '' @ format_f 1 base_popularity @
            '', Activity: '' @ format_f 1 activity_score @
            '', Recency: '' @ format_f 2 recency_multiplier @
            '', Lang: '' @ format_f 1 language_boost
      in \<lparr>repo_of = repo, score = final_score, reasoning = reasoning\<rparr>)"

definition search_repositories_test ::
  "net \<Rightarrow> string \<Rightarrow> string \<Rightarrow> int \<Rightarrow> state \<Rightarrow> (exn + repo list) \<times> state" where
  "search_repositories_test net query sort_by per_page s =
     (if rate_limit_remaining s \<le> 5 then
        (Inr [], st_warning ''GitHub API rate limit low. Consider adding a GitHub token.'' s)
      else
        let url = GITHUB_API_BASE @ ''/search/repositories'';
            req = \<lparr>req_url = url, req_headers = headers s,
                   param_q = query, param_sort = sort_by, param_order = ''desc'',
                   param_per_page = per_page, req_timeout = Some 10\<rparr>;
            try_block =
              (case requests_get net req s of
                 (Inl e, s1) \<Rightarrow> (Inl e, s1)
               | (Inr resp, s1) \<Rightarrow>
                   if status_code resp = 200 then
                     (let s2 = s1\<lparr>rate_limit_remaining := rate_limit_remaining s1 - 1\<rparr>
                      in case json resp of
                           Inl e \<Rightarrow> (Inl e, s2)
                         | Inr data \<Rightarrow> (get_items data, s2))
                   else if status_code resp = 403 then
                     (Inr [], st_error
                        ''GitHub API rate limit exceeded. Please add a GitHub token or try again later.''
                        s1)
                   else if status_code resp = 422 then
                     (Inr [], st_error (''Invalid search query: '' @ query) s1)
                   else
                     (Inr [], st_error (''GitHub API error: '' @ str_int (status_code resp) @
                                         '' - '' @ take 200 (resp_text resp)) s1))
        in (case try_block of
              (Inl Timeout, s') \<Rightarrow>
                (Inr [], st_error ''Request timed out. GitHub API might be slow.'' s')
            | (Inl e, s') \<Rightarrow>
                (Inr [], st_error (''Error fetching repositories: '' @ str_exn e) s')
            | (Inr items, s') \<Rightarrow> (Inr items, s')))"

definition queries_test :: "string \<Rightarrow> (string \<times> string) list" where
  "queries_test date_threshold =
     [(''newly_created'', ''created:>'' @ date_threshold),
      (''recently_active'', ''pushed:>'' @ date_threshold @ '' stars:>10''),
      (''hot_topics'', ''good-first-issues:>0 created:>'' @ date_threshold),
      (''ai_ml_trending'', ''topic:machine-learning created:>'' @ date_threshold),
      (''web_dev_trending'', ''topic:react created:>'' @ date_threshold),
      (''devops_trending'', ''topic:docker created:>'' @ date_threshold),
      (''mobile_trending'', ''topic:android created:>'' @ date_threshold),
      (''breaking_out'', ''stars:100..1000 created:>'' @ date_threshold),
      (''hidden_gems'', ''stars:10..100 forks:>5 created:>'' @ date_threshold)]"

fun score_loop_test ::
  "(nat \<Rightarrow> datetime) \<Rightarrow> nat \<Rightarrow> scored list \<Rightarrow> repo list \<Rightarrow> scored list" where
  "score_loop_test clock i scored_repos [] = scored_repos"
| "score_loop_test clock i scored_repos (r # repos) =
     score_loop_test clock (Suc i)
       (scored_repos @ [calculate_interest_score_test (clock i) r]) repos"

definition scan_trending_by_category_test ::
  "net \<Rightarrow> (nat \<Rightarrow> datetime) \<Rightarrow> string \<Rightarrow> int \<Rightarrow> state \<Rightarrow> (exn + scored list) \<times> state" where
  "scan_trending_by_category_test net clock category days_back s =
     (case sub_timedelta_days (clock 0) days_back of
        Inl e \<Rightarrow> (Inl e, s)
      | Inr t \<Rightarrow>
          let date_threshold = strftime_ymd t in
          (case map_of (queries_test date_threshold) category of
             None \<Rightarrow> (Inr [], st_error (''Unknown category: '' @ category) s)
           | Some q \<Rightarrow>
               (case search_repositories_test net q ''stars'' 30 s of
                  (Inl e, s') \<Rightarrow> (Inl e, s')
                | (Inr repos, s') \<Rightarrow>
                    (Inr (sorted_reverse score (score_loop_test clock 1 [] repos)), s'))))"

section \<open>The scoring algorithm as the specification words it\<close>

text \<open>
  The specification's ScoreEngine: fixed weights, the recency floor 0.1, 0.5 for an
  unparsable creation time, the eleven-entry language table. The elapsed time is taken in
  days as a real number and made whole by \<open>whole\<close>; the specification says the
  fractional part is truncated, which is \<open>trunc\<close>.
\<close>

definition trunc :: "real \<Rightarrow> int" where
  "trunc x = (if 0 \<le> x then \<lfloor>x\<rfloor> else \<lceil>x\<rceil>)"

definition spec_elapsed_days :: "datetime \<Rightarrow> datetime \<Rightarrow> real" where
  "spec_elapsed_days now created = of_int (sub_us now created) / 86400000000"

definition spec_count :: "int option \<Rightarrow> real" where
  "spec_count v = (case v of None \<Rightarrow> 0 | Some n \<Rightarrow> of_int n)"

definition spec_base_popularity :: "repo \<Rightarrow> real" where
  "spec_base_popularity r =
     spec_count (stargazers_count r) * 1.0 + spec_count (forks_count r) * 2.0 +
     spec_count (watchers_count r) * 1.5"

definition spec_recency_mult :: "(real \<Rightarrow> int) \<Rightarrow> datetime \<Rightarrow> repo \<Rightarrow> real" where
  "spec_recency_mult whole now r =
     (case created_at r of
        None \<Rightarrow> 0.5
      | Some s \<Rightarrow>
          (case strptime s of
             Inl e \<Rightarrow> 0.5
           | Inr created \<Rightarrow> max 0.1 (1.0 - of_int (whole (spec_elapsed_days now created)) / 365)))"

definition spec_activity_score :: "repo \<Rightarrow> real" where
  "spec_activity_score r =
     spec_count (open_issues_count r) * 0.1 +
     (if has_wiki r = Some True then 10 else 0) +
     (case topics r of None \<Rightarrow> 0 | Some ts \<Rightarrow> of_nat (length ts)) * 5"

definition spec_language_boost :: "string option \<Rightarrow> real" where
  "spec_language_boost l =
     (if l = Some ''JavaScript'' then 1.2
      else if l = Some ''Python'' then 1.3
      else if l = Some ''TypeScript'' then 1.1
      else if l = Some ''Go'' then 1.0
      else if l = Some ''Rust'' then 1.4
      else if l = Some ''Swift'' then 0.9
      else if l = Some ''Kotlin'' then 0.8
      else if l = Some ''Java'' then 1.1
      else if l = Some ''C++'' then 1.0
      else if l = Some ''C#'' then 0.9
      else if l = Some ''PHP'' then 0.8
      else 1.0)"

definition spec_final_score :: "(real \<Rightarrow> int) \<Rightarrow> datetime \<Rightarrow> repo \<Rightarrow> real" where
  "spec_final_score whole now r =
     (spec_base_popularity r + spec_activity_score r) * spec_recency_mult whole now r *
     spec_language_boost (language r)"

section \<open>Notions used to state the properties\<close>

text \<open>The nine category names of the specification.\<close>

definition category_names :: "string list" where
  "category_names =
     [''newly_created'', ''recently_active'', ''hot_topics'', ''ai_ml_trending'',
      ''web_dev_trending'', ''devops_trending'', ''mobile_trending'', ''breaking_out'',
      ''hidden_gems'']"

text \<open>The items array of a response body, empty if there is none.\<close>

definition items_or_empty :: "json_body \<Rightarrow> repo list" where
  "items_or_empty b = (case b of JsonObject (Some items) \<Rightarrow> items | _ \<Rightarrow> [])"

text \<open>
  The search result scored record by record, in the order of the search result; the
  record at position \<open>i\<close> is scored at clock reading \<open>i + 1\<close>.
\<close>

definition scored_in_order :: "(nat \<Rightarrow> datetime) \<Rightarrow> repo list \<Rightarrow> scored list" where
  "scored_in_order clock repos =
     map (\<lambda>(i, r). calculate_interest_score (clock (Suc i)) r) (enumerate 0 repos)"

section \<open>Concrete inputs\<close>

text \<open>Three repositories created at \<open>now_2024\<close>, with scores 50, 75 and 50.\<close>

definition repo_a :: repo where
  "repo_a =
     \<lparr>full_name = ''octo/alpha'', stargazers_count = Some 50, forks_count = Some 0,
      watchers_count = Some 0, open_issues_count = Some 0,
      created_at = Some ''2024-01-01T00:00:00Z'', has_wiki = Some False, topics = Some [],
      language = None\<rparr>"

definition repo_b :: repo where
  "repo_b =
     \<lparr>full_name = ''octo/beta'', stargazers_count = Some 75, forks_count = Some 0,
      watchers_count = Some 0, open_issues_count = Some 0,
      created_at = Some ''2024-01-01T00:00:00Z'', has_wiki = Some False, topics = Some [],
      language = None\<rparr>"

definition repo_c :: repo where
  "repo_c =
     \<lparr>full_name = ''octo/gamma'', stargazers_count = Some 0, forks_count = Some 25,
      watchers_count = Some 0, open_issues_count = Some 0,
      created_at = Some ''2024-01-01T00:00:00Z'', has_wiki = Some False, topics = Some [],
      language = None\<rparr>"

text \<open>A repository created ten years before \<open>now_2024\<close>.\<close>

definition repo_old :: repo where
  "repo_old =
     \<lparr>full_name = ''octo/old'', stargazers_count = Some 1000, forks_count = Some 10,
      watchers_count = Some 1000, open_issues_count = Some 3,
      created_at = Some ''2014-01-01T00:00:00Z'', has_wiki = Some True,
      topics = Some [''cli''], language = Some ''Go''\<rparr>"

definition created_2014 :: datetime where
  "created_2014 = \<lparr>dt_year = 2014, dt_month = 1, dt_day = 1, dt_hour = 0, dt_minute = 0,
                    dt_second = 0, dt_microsecond = 0\<rparr>"

definition created_2024_noon :: datetime where
  "created_2024_noon = \<lparr>dt_year = 2024, dt_month = 1, dt_day = 1, dt_hour = 12, dt_minute = 0,
                         dt_second = 0, dt_microsecond = 0\<rparr>"

text \<open>A network that answers 200 with the three repositories, and one that answers 403.\<close>

definition net_three :: net where
  "net_three req =
     Inr \<lparr>status_code = 200, resp_text = [],
          resp_body = JsonObject (Some [repo_a, repo_b, repo_c])\<rparr>"

definition net_403 :: net where
  "net_403 req =
     Inr \<lparr>status_code = 403, resp_text = ''API rate limit exceeded'',
          resp_body = JsonObject None\<rparr>"

definition clock_2024 :: "nat \<Rightarrow> datetime" where
  "clock_2024 i = \<lparr>dt_year = 2024, dt_month = 1, dt_day = 1, dt_hour = 0, dt_minute = 0,
                    dt_second = 0, dt_microsecond = 0\<rparr>"

definition threshold_2023 :: datetime where
  "threshold_2023 = \<lparr>dt_year = 2023, dt_month = 12, dt_day = 25, dt_hour = 0, dt_minute = 0,
                      dt_second = 0, dt_microsecond = 0\<rparr>"

definition hidden_gems_request :: request where
  "hidden_gems_request =
     \<lparr>req_url = ''https://api.github.com/search/repositories'',
      req_headers = [(''Accept'', ''application/vnd.github.v3+json'')],
      param_q = ''stars:10..100 forks:>5 created:>2023-12-25'', param_sort = ''stars'',
      param_order = ''desc'', param_per_page = 30, req_timeout = Some 10\<rparr>"

text \<open>A scanner whose quota counter stands at the low-water mark.\<close>

definition scanner_low_quota :: state where
  "scanner_low_quota =
     \<lparr>headers = [(''Accept'', ''application/vnd.github.v3+json'')],
      rate_limit_remaining = 5, requests_sent = [], notices = []\<rparr>"

definition now_2024 :: datetime where
  "now_2024 = \<lparr>dt_year = 2024, dt_month = 1, dt_day = 1, dt_hour = 0, dt_minute = 0,
                dt_second = 0, dt_microsecond = 0\<rparr>"

text \<open>A repository created twelve hours after \<open>now_2024\<close>.\<close>

definition repo_future :: repo where
  "repo_future =
     \<lparr>full_name = ''octo/future'', stargazers_count = Some 100, forks_count = None,
      watchers_count = None, open_issues_count = None,
      created_at = Some ''2024-01-01T12:00:00Z'', has_wiki = None, topics = None,
      language = None\<rparr>"

section \<open>The score is the specification's algorithm\<close>

lemma sub_days_floor: "sub_days a b = \<lfloor>spec_elapsed_days a b\<rfloor>"
proof -
  have "(86400000000::real) = of_int 86400000000" by simp
  then have "spec_elapsed_days a b = of_int (sub_us a b) / of_int 86400000000"
    unfolding spec_elapsed_days_def by presburger
  then show ?thesis
    unfolding sub_days_def by (simp only: floor_divide_of_int_eq)
qed

lemma language_boost_spec: "language_boost r = spec_language_boost (language r)"
  by (cases "language r")
     (simp_all add: language_boost_def spec_language_boost_def language_multipliers_def
        get_default_def)

lemma recency_multiplier_spec: "recency_multiplier now r = spec_recency_mult floor now r"
  by (simp add: recency_multiplier_def recency_try_def spec_recency_mult_def subscript_def
        py_max_def max_def sub_days_floor Let_def split: option.splits sum.splits)

lemma base_popularity_spec: "base_popularity r = spec_base_popularity r"
  by (simp add: base_popularity_def spec_base_popularity_def spec_count_def get_default_def
        split: option.splits)

lemma activity_score_spec: "activity_score r = spec_activity_score r"
  by (simp add: activity_score_def spec_activity_score_def spec_count_def get_default_def
        split: option.splits)

text \<open>
  Claim C1, as amended. For every repository record and every instant \<open>now\<close>, the score
  returned by \<open>calculate_interest_score\<close> is the specification's algorithm:
  (stars*1.0 + forks*2.0 + watchers*1.5 + open_issues*0.1 + (10 if has_wiki) + topics*5)
  * recency * language boost, missing counts being 0, the recency multiplier being 0.5
  for an unparsable creation time and max(0.1, 1 - days_old/365) otherwise, where
  days_old is the elapsed time in days rounded towards minus infinity.
\<close>

theorem score_is_spec_algorithm_with_floor:
  "score (calculate_interest_score now r) = spec_final_score floor now r"
  by (simp add: calculate_interest_score_def final_score_def spec_final_score_def
        language_boost_spec recency_multiplier_spec base_popularity_spec activity_score_spec)

text \<open>
  For a creation time that is not later than the current instant, truncation and rounding
  down agree, and the score is the specification's algorithm as worded.
\<close>

lemma trunc_eq_floor: "0 \<le> x \<Longrightarrow> trunc x = \<lfloor>x\<rfloor>"
  by (simp add: trunc_def)

lemma spec_recency_mult_not_future:
  assumes "\<And>s c. created_at r = Some s \<Longrightarrow> strptime s = Inr c \<Longrightarrow> 0 \<le> sub_us now c"
  shows "spec_recency_mult trunc now r = spec_recency_mult floor now r"
proof (cases "created_at r")
  case None
  then show ?thesis by (simp add: spec_recency_mult_def)
next
  case (Some s)
  show ?thesis
  proof (cases "strptime s")
    case (Inl e)
    with Some show ?thesis by (simp add: spec_recency_mult_def)
  next
    case (Inr c)
    with Some assms have "0 \<le> sub_us now c" by blast
    then have "0 \<le> spec_elapsed_days now c" by (simp add: spec_elapsed_days_def)
    then have "trunc (spec_elapsed_days now c) = \<lfloor>spec_elapsed_days now c\<rfloor>"
      by (rule trunc_eq_floor)
    with Some Inr show ?thesis by (simp add: spec_recency_mult_def)
  qed
qed

lemma score_is_spec_algorithm_when_not_future:
  assumes "\<And>s c. created_at r = Some s \<Longrightarrow> strptime s = Inr c \<Longrightarrow> 0 \<le> sub_us now c"
  shows "score (calculate_interest_score now r) = spec_final_score trunc now r"
  using spec_recency_mult_not_future [OF assms]
  by (simp add: calculate_interest_score_def final_score_def spec_final_score_def
        language_boost_spec recency_multiplier_spec base_popularity_spec activity_score_spec)

text \<open>
  Claim C1, as stated, fails. With the elapsed days truncated (rounded towards zero), a
  repository created twelve hours after the current instant has days_old = 0 and the
  specification's score 100; the code computes days_old = -1 and the score 100 * 366/365.
\<close>

theorem score_truncated_days_counterexample:
  "score (calculate_interest_score now_2024 repo_future) = 7320 / 73 \<and>
   spec_final_score trunc now_2024 repo_future = 100 \<and>
   score (calculate_interest_score now_2024 repo_future) \<noteq>
     spec_final_score trunc now_2024 repo_future"
  by code_simp

section \<open>The two copies of the scanner agree\<close>

lemma calculate_interest_score_test_eq:
  "calculate_interest_score_test now r = calculate_interest_score now r"
  by (cases "language r")
     (simp_all add: calculate_interest_score_test_def calculate_interest_score_def
        final_score_def reasoning_text_def base_popularity_def activity_score_def
        language_boost_def language_multipliers_def recency_multiplier_def recency_try_def
        Let_def)

lemma search_repositories_test_eq:
  "search_repositories_test net q sb pp s = search_repositories net q sb pp s"
proof (cases "net (search_request s q sb pp)")
  case (Inl e)
  then show ?thesis
    by (simp add: search_repositories_test_def search_repositories_def search_try_def
          search_request_def Let_def requests_get_def)
next
  case (Inr resp)
  then show ?thesis
    by (simp add: search_repositories_test_def search_repositories_def search_try_def
          search_request_def Let_def requests_get_def)
qed

lemma score_loop_test_eq: "score_loop_test clock i acc repos = score_loop clock i acc repos"
  by (induction repos arbitrary: i acc) (simp_all add: calculate_interest_score_test_eq)

lemma queries_test_eq: "queries_test d = queries d"
  by (simp add: queries_test_def queries_def)

lemma scan_trending_by_category_test_eq:
  "scan_trending_by_category_test net clock category days_back s =
   scan_trending_by_category net clock category days_back s"
  unfolding scan_trending_by_category_test_def scan_trending_by_category_def
    queries_test_eq search_repositories_test_eq score_loop_test_eq
  by (rule refl)

text \<open>
  Claim C10. The scoring and categorisation code of src/test.py equals that of
  src/functions.py: for every record and instant \<open>calculate_interest_score\<close> returns the
  same record, score and reasoning text; for every date threshold the two tables of
  qualifier strings are the same; and for every network, clock, category, lookback and
  scanner state \<open>scan_trending_by_category\<close> returns the same result and final state.
\<close>

theorem test_copy_equals_functions_copy:
  "calculate_interest_score_test now r = calculate_interest_score now r \<and>
   queries_test d = queries d \<and>
   scan_trending_by_category_test net clock category days_back s =
     scan_trending_by_category net clock category days_back s"
  by (simp only: calculate_interest_score_test_eq queries_test_eq
        scan_trending_by_category_test_eq)

section \<open>\<^verbatim>\<open>search_repositories\<close>: quota and outcomes\<close>

text \<open>
  Claim C4. For every network, query, sort option and page size: if the quota counter is
  at most 5 when \<open>search_repositories\<close> is called, the call returns the empty list and
  appends only the low-quota warning; no request is sent and the quota counter keeps its
  value.
\<close>

theorem search_refused_when_quota_low:
  "rate_limit_remaining s \<le> 5 \<Longrightarrow>
   search_repositories net query sort_by per_page s =
     (Inr [], st_warning ''GitHub API rate limit low. Consider adding a GitHub token.'' s) \<and>
   requests_sent (snd (search_repositories net query sort_by per_page s)) = requests_sent s \<and>
   rate_limit_remaining (snd (search_repositories net query sort_by per_page s)) =
     rate_limit_remaining s \<and>
   notices (snd (search_repositories net query sort_by per_page s)) =
     notices s @ [Warning ''GitHub API rate limit low. Consider adding a GitHub token.'']"
  by (simp add: search_repositories_def st_warning_def)

theorem search_refused_when_quota_low_witness:
  "rate_limit_remaining scanner_low_quota \<le> 5 \<and>
   search_repositories net_three ''language:python'' ''stars'' 30 scanner_low_quota =
     (Inr [], st_warning ''GitHub API rate limit low. Consider adding a GitHub token.''
                scanner_low_quota) \<and>
   requests_sent (snd (search_repositories net_three ''language:python'' ''stars'' 30
                         scanner_low_quota)) = []"
proof -
  have h: "rate_limit_remaining scanner_low_quota \<le> 5"
    by (simp add: scanner_low_quota_def)
  have e: "requests_sent scanner_low_quota = []"
    by (simp add: scanner_low_quota_def)
  show ?thesis
    using h e
      search_refused_when_quota_low [OF h, of net_three "''language:python''" "''stars''" 30]
    by (simp add: st_warning_def)
qed

lemma search_try_cases:
  "search_try net req s = (res, s') \<Longrightarrow>
   requests_sent s' = requests_sent s @ [req] \<and>
   (case net req of
      Inl e \<Rightarrow> res = Inl e \<and> rate_limit_remaining s' = rate_limit_remaining s
    | Inr resp \<Rightarrow>
        if status_code resp = 200
        then rate_limit_remaining s' = rate_limit_remaining s - 1 \<and>
             (res = Inr (items_or_empty (resp_body resp)) \<or>
              (\<exists>e. res = Inl e \<and> items_or_empty (resp_body resp) = []))
        else rate_limit_remaining s' = rate_limit_remaining s \<and> res = Inr [])"
  by (auto simp: search_try_def requests_get_def st_error_def json_def get_items_def
        items_or_empty_def get_default_def Let_def
      split: sum.splits if_splits json_body.splits option.splits)

text \<open>
  Claim C5. Whatever \<open>search_repositories\<close> returns: when a request was made (quota
  above 5) and the network answered with status 200, the quota counter is one less than
  before and the result is the items array of the body (empty if the body has none);
  in every other case (request refused, another status, timeout or any other failure) the
  quota counter is unchanged and the result is the empty list.
\<close>

theorem search_decrements_quota_only_on_200:
  "search_repositories net query sort_by per_page s = (res, s') \<Longrightarrow>
   (case (if rate_limit_remaining s \<le> 5 then None
          else Some (net (search_request s query sort_by per_page))) of
      Some (Inr resp) \<Rightarrow>
        if status_code resp = 200
        then rate_limit_remaining s' = rate_limit_remaining s - 1 \<and>
             res = Inr (items_or_empty (resp_body resp))
        else rate_limit_remaining s' = rate_limit_remaining s \<and> res = Inr []
    | _ \<Rightarrow> rate_limit_remaining s' = rate_limit_remaining s \<and> res = Inr [])"
proof (cases "rate_limit_remaining s \<le> 5")
  case True
  assume "search_repositories net query sort_by per_page s = (res, s')"
  with True show ?thesis
    by (auto simp: search_repositories_def st_warning_def)
next
  case False
  assume a: "search_repositories net query sort_by per_page s = (res, s')"
  obtain r1 s1 where t: "search_try net (search_request s query sort_by per_page) s = (r1, s1)"
    by (cases "search_try net (search_request s query sort_by per_page) s")
  note c = search_try_cases [OF t]
  from a False t
  have "rate_limit_remaining s' = rate_limit_remaining s1 \<and>
        res = (case r1 of Inl e \<Rightarrow> Inr [] | Inr v \<Rightarrow> Inr v)"
    by (auto simp: search_repositories_def st_error_def split: sum.splits exn.splits)
  with c False show ?thesis
    by (auto split: sum.splits if_splits)
qed

theorem search_decrements_quota_only_on_200_witness:
  "search_repositories net_three ''q'' ''stars'' 30 (init None) =
     (Inr [repo_a, repo_b, repo_c],
      (init None)\<lparr>rate_limit_remaining := 59,
                   requests_sent := [search_request (init None) ''q'' ''stars'' 30]\<rparr>) \<and>
   rate_limit_remaining (init None) = 60 \<and>
   search_repositories net_403 ''q'' ''stars'' 30 (init None) =
     (Inr [],
      (init None)\<lparr>requests_sent := [search_request (init None) ''q'' ''stars'' 30],
                   notices := [Error
         ''GitHub API rate limit exceeded. Please add a GitHub token or try again later.'']\<rparr>)"
proof -
  have a: "search_repositories net_three ''q'' ''stars'' 30 (init None) =
     (Inr [repo_a, repo_b, repo_c],
      (init None)\<lparr>rate_limit_remaining := 59,
                   requests_sent := [search_request (init None) ''q'' ''stars'' 30]\<rparr>)"
    by code_simp
  have b: "search_repositories net_403 ''q'' ''stars'' 30 (init None) =
     (Inr [],
      (init None)\<lparr>requests_sent := [search_request (init None) ''q'' ''stars'' 30],
                   notices := [Error
         ''GitHub API rate limit exceeded. Please add a GitHub token or try again later.'']\<rparr>)"
    by code_simp
  have c: "rate_limit_remaining (init None) = 60"
    by (simp add: init_def)
  show ?thesis
    using a b c search_decrements_quota_only_on_200 [OF a]
      search_decrements_quota_only_on_200 [OF b]
    by simp
qed

lemma search_repositories_returns:
  "\<exists>items s'. search_repositories net query sort_by per_page s = (Inr items, s')"
  by (cases "search_try net (search_request s query sort_by per_page) s")
     (auto simp: search_repositories_def split: sum.splits exn.splits)

section \<open>The score: sign, monotonicity, recency\<close>

lemma recency_multiplier_ge: "1 / 10 \<le> recency_multiplier now r"
  by (simp add: recency_multiplier_def recency_try_def subscript_def py_max_def Let_def
        split: option.splits sum.splits)

lemma language_boost_pos: "0 < language_boost r"
  by (cases "language r")
     (simp_all add: language_boost_def language_multipliers_def get_default_def)

lemma base_popularity_nonneg:
  "0 \<le> get_default (stargazers_count r) 0 \<Longrightarrow> 0 \<le> get_default (forks_count r) 0 \<Longrightarrow>
   0 \<le> get_default (watchers_count r) 0 \<Longrightarrow> 0 \<le> base_popularity r"
  by (simp add: base_popularity_def)

lemma activity_score_nonneg:
  "0 \<le> get_default (open_issues_count r) 0 \<Longrightarrow> 0 \<le> activity_score r"
  by (simp add: activity_score_def)

text \<open>
  Claim C6. For every repository record whose stars, forks, watchers and open-issue
  counts (0 when missing) are non-negative, whatever its creation time, language, topics
  and wiki flag, and for every instant, the score of \<open>calculate_interest_score\<close> is at
  least 0.
\<close>

theorem score_nonneg:
  assumes "0 \<le> get_default (stargazers_count r) 0"
    and "0 \<le> get_default (forks_count r) 0"
    and "0 \<le> get_default (watchers_count r) 0"
    and "0 \<le> get_default (open_issues_count r) 0"
  shows "0 \<le> score (calculate_interest_score now r)"
proof -
  have "0 \<le> base_popularity r"
    using assms(1-3) by (rule base_popularity_nonneg)
  moreover have "0 \<le> activity_score r"
    using assms(4) by (rule activity_score_nonneg)
  moreover have "0 \<le> recency_multiplier now r"
    using recency_multiplier_ge [of now r] by simp
  moreover have "0 \<le> language_boost r"
    using language_boost_pos [of r] by simp
  ultimately show ?thesis
    by (simp add: calculate_interest_score_def final_score_def)
qed

theorem score_nonneg_witness:
  "0 \<le> get_default (stargazers_count repo_old) 0 \<and>
   0 \<le> get_default (forks_count repo_old) 0 \<and>
   0 \<le> get_default (watchers_count repo_old) 0 \<and>
   0 \<le> get_default (open_issues_count repo_old) 0 \<and>
   0 \<le> score (calculate_interest_score now_2024 repo_old)"
proof -
  have h1: "0 \<le> get_default (stargazers_count repo_old) 0"
    and h2: "0 \<le> get_default (forks_count repo_old) 0"
    and h3: "0 \<le> get_default (watchers_count repo_old) 0"
    and h4: "0 \<le> get_default (open_issues_count repo_old) 0"
    by (simp_all add: repo_old_def get_default_def)
  show ?thesis
    using h1 h2 h3 h4 score_nonneg [OF h1 h2 h3 h4, of now_2024] by simp
qed

lemma final_score_mono:
  assumes "recency_multiplier now r' = recency_multiplier now r"
    and "language_boost r' = language_boost r"
    and "activity_score r' = activity_score r"
    and "base_popularity r \<le> base_popularity r'"
  shows "final_score now r \<le> final_score now r'"
proof -
  have "0 \<le> recency_multiplier now r"
    using recency_multiplier_ge [of now r] by simp
  moreover have "0 \<le> language_boost r"
    using language_boost_pos [of r] by simp
  ultimately show ?thesis
    using assms by (simp add: final_score_def mult_right_mono)
qed

text \<open>
  Claim C7. At a fixed instant, two records that differ only in the stars count
  (respectively only in the forks count, only in the watchers count; a missing count is
  0) have scores in the same order as those counts: the score is monotonically
  non-decreasing in stars, forks and watchers.
\<close>

theorem score_mono_in_stars_forks_watchers:
  "(get_default a 0 \<le> get_default b 0 \<longrightarrow>
      score (calculate_interest_score now (r\<lparr>stargazers_count := a\<rparr>)) \<le>
      score (calculate_interest_score now (r\<lparr>stargazers_count := b\<rparr>))) \<and>
   (get_default a 0 \<le> get_default b 0 \<longrightarrow>
      score (calculate_interest_score now (r\<lparr>forks_count := a\<rparr>)) \<le>
      score (calculate_interest_score now (r\<lparr>forks_count := b\<rparr>))) \<and>
   (get_default a 0 \<le> get_default b 0 \<longrightarrow>
      score (calculate_interest_score now (r\<lparr>watchers_count := a\<rparr>)) \<le>
      score (calculate_interest_score now (r\<lparr>watchers_count := b\<rparr>)))"
proof (intro conjI impI)
  assume le: "get_default a 0 \<le> get_default b 0"
  show "score (calculate_interest_score now (r\<lparr>stargazers_count := a\<rparr>)) \<le>
        score (calculate_interest_score now (r\<lparr>stargazers_count := b\<rparr>))"
    unfolding calculate_interest_score_def scored.simps
    by (rule final_score_mono)
       (insert le, simp_all add: recency_multiplier_def recency_try_def language_boost_def
          activity_score_def base_popularity_def)
  show "score (calculate_interest_score now (r\<lparr>forks_count := a\<rparr>)) \<le>
        score (calculate_interest_score now (r\<lparr>forks_count := b\<rparr>))"
    unfolding calculate_interest_score_def scored.simps
    by (rule final_score_mono)
       (insert le, simp_all add: recency_multiplier_def recency_try_def language_boost_def
          activity_score_def base_popularity_def)
  show "score (calculate_interest_score now (r\<lparr>watchers_count := a\<rparr>)) \<le>
        score (calculate_interest_score now (r\<lparr>watchers_count := b\<rparr>))"
    unfolding calculate_interest_score_def scored.simps
    by (rule final_score_mono)
       (insert le, simp_all add: recency_multiplier_def recency_try_def language_boost_def
          activity_score_def base_popularity_def)
qed

theorem score_mono_in_stars_forks_watchers_witness:
  "get_default (Some 50) 0 \<le> get_default (Some 75) (0::int) \<and>
   score (calculate_interest_score now_2024 (repo_old\<lparr>stargazers_count := Some 50\<rparr>)) \<le>
   score (calculate_interest_score now_2024 (repo_old\<lparr>stargazers_count := Some 75\<rparr>)) \<and>
   score (calculate_interest_score now_2024 (repo_old\<lparr>forks_count := Some 50\<rparr>)) \<le>
   score (calculate_interest_score now_2024 (repo_old\<lparr>forks_count := Some 75\<rparr>)) \<and>
   score (calculate_interest_score now_2024 (repo_old\<lparr>watchers_count := Some 50\<rparr>)) \<le>
   score (calculate_interest_score now_2024 (repo_old\<lparr>watchers_count := Some 75\<rparr>))"
proof -
  have h: "get_default (Some 50) 0 \<le> get_default (Some 75) (0::int)"
    by (simp add: get_default_def)
  show ?thesis
    using h score_mono_in_stars_forks_watchers [of "Some 50" "Some 75" now_2024 repo_old]
    by simp
qed

lemma sub_days_neg: "sub_us a b < 0 \<Longrightarrow> sub_days a b < 0"
  unfolding sub_days_def by (simp add: neg_imp_zdiv_neg_iff)

text \<open>
  Claim C8. For a record whose creation time parses, the recency multiplier is
  max(0.1, 1 - days_old/365). It is always positive; it is exactly 0.1 as soon as the
  record is at least 329 days old, so in particular for a record created ten years ago;
  and for a record created after the current instant days_old is negative and the
  multiplier is 1 - days_old/365, which is above 1.0 and exceeds every bound \<open>B\<close> once
  days_old is below 365 * (1 - B): there is no upper cap.
\<close>

theorem recency_multiplier_clamped_below_only:
  assumes "created_at r = Some s" and "strptime s = Inr c"
  shows "recency_multiplier now r = max (1 / 10) (1 - of_int (sub_days now c) / 365) \<and>
         0 < recency_multiplier now r \<and>
         (329 \<le> sub_days now c \<longrightarrow> recency_multiplier now r = 1 / 10) \<and>
         (sub_us now c < 0 \<longrightarrow>
            sub_days now c < 0 \<and>
            recency_multiplier now r = 1 - of_int (sub_days now c) / 365 \<and>
            1 < recency_multiplier now r) \<and>
         (\<forall>B. of_int (sub_days now c) < 365 * (1 - B) \<longrightarrow> B < recency_multiplier now r)"
proof -
  have eq: "recency_multiplier now r = max (1 / 10) (1 - of_int (sub_days now c) / 365)"
    using assms
    by (simp add: recency_multiplier_def recency_try_def subscript_def py_max_def Let_def
          max_def)
  have pos: "0 < recency_multiplier now r"
    using recency_multiplier_ge [of now r] by simp
  have old: "329 \<le> sub_days now c \<longrightarrow> recency_multiplier now r = 1 / 10"
    unfolding eq by (auto simp: max_def)
  have fut: "sub_us now c < 0 \<longrightarrow>
            sub_days now c < 0 \<and>
            recency_multiplier now r = 1 - of_int (sub_days now c) / 365 \<and>
            1 < recency_multiplier now r"
  proof
    assume "sub_us now c < 0"
    then have n: "sub_days now c < 0" by (rule sub_days_neg)
    then have "(1::real) < 1 - of_int (sub_days now c) / 365" by simp
    with n show "sub_days now c < 0 \<and>
            recency_multiplier now r = 1 - of_int (sub_days now c) / 365 \<and>
            1 < recency_multiplier now r"
      unfolding eq by (simp add: max_def)
  qed
  have cap: "\<forall>B. of_int (sub_days now c) < 365 * (1 - B) \<longrightarrow> B < recency_multiplier now r"
  proof (intro allI impI)
    fix B :: real
    assume "of_int (sub_days now c) < 365 * (1 - B)"
    then have "B < 1 - of_int (sub_days now c) / 365" by (simp add: field_simps)
    then show "B < recency_multiplier now r" unfolding eq by simp
  qed
  from eq pos old fut cap show ?thesis by blast
qed

theorem recency_multiplier_clamped_below_only_witness:
  "created_at repo_old = Some ''2014-01-01T00:00:00Z'' \<and>
   strptime ''2014-01-01T00:00:00Z'' = Inr created_2014 \<and>
   sub_days now_2024 created_2014 = 3652 \<and>
   recency_multiplier now_2024 repo_old = 1 / 10 \<and>
   created_at repo_future = Some ''2024-01-01T12:00:00Z'' \<and>
   strptime ''2024-01-01T12:00:00Z'' = Inr created_2024_noon \<and>
   sub_us now_2024 created_2024_noon < 0 \<and>
   sub_days now_2024 created_2024_noon = - 1 \<and>
   recency_multiplier now_2024 repo_future = 366 / 365 \<and>
   1 < recency_multiplier now_2024 repo_future"
proof -
  have a1: "created_at repo_old = Some ''2014-01-01T00:00:00Z''"
    by (simp add: repo_old_def)
  have a2: "strptime ''2014-01-01T00:00:00Z'' = Inr created_2014"
    by code_simp
  have a3: "sub_days now_2024 created_2014 = 3652"
    by code_simp
  have b1: "created_at repo_future = Some ''2024-01-01T12:00:00Z''"
    by (simp add: repo_future_def)
  have b2: "strptime ''2024-01-01T12:00:00Z'' = Inr created_2024_noon"
    by code_simp
  have b3: "sub_us now_2024 created_2024_noon < 0"
    by code_simp
  have b4: "sub_days now_2024 created_2024_noon = - 1"
    by code_simp
  show ?thesis
    using a1 a2 a3 b1 b2 b3 b4
      recency_multiplier_clamped_below_only [OF a1 a2, of now_2024]
      recency_multiplier_clamped_below_only [OF b1 b2, of now_2024]
    by simp
qed

section \<open>\<^verbatim>\<open>scan_trending_by_category\<close>: order of the result\<close>

lemma score_loop_eq:
  "score_loop clock i acc repos =
   acc @ map (\<lambda>(j, r). calculate_interest_score (clock j) r) (enumerate i repos)"
  by (induction repos arbitrary: i acc) simp_all

lemma enumerate_Suc_map: "enumerate (Suc n) xs = map (\<lambda>(i, x). (Suc i, x)) (enumerate n xs)"
  by (induction xs arbitrary: n) simp_all

lemma score_loop_scored_in_order:
  "score_loop clock (Suc 0) [] repos = scored_in_order clock repos"
  by (simp add: score_loop_eq scored_in_order_def enumerate_Suc_map case_prod_unfold comp_def)

lemma sorted_reverse_descending: "sorted_wrt (\<lambda>a b. k b \<le> k a) (sorted_reverse k xs)"
proof -
  have "sorted (map k (sort_key k (rev xs)))" by (rule sorted_sort_key)
  then have "sorted_wrt (\<lambda>a b. k a \<le> k b) (sort_key k (rev xs))"
    by (simp add: sorted_map)
  then show ?thesis
    unfolding sorted_reverse_def by (simp add: sorted_wrt_rev)
qed

lemma sorted_reverse_mset: "mset (sorted_reverse k xs) = mset xs"
  by (simp add: sorted_reverse_def)

lemma sorted_reverse_stable:
  "filter (\<lambda>x. k x = v) (sorted_reverse k xs) = filter (\<lambda>x. k x = v) xs"
  by (simp add: sorted_reverse_def rev_filter [symmetric] sort_key_stable)

text \<open>
  Claim C2. Whenever the scan reaches the search (the date threshold is a date, the
  category is one of the table) and the search returns the records \<open>repos\<close>, the scan
  returns a list \<open>out\<close> that holds exactly the scored records of \<open>repos\<close>, is ordered by
  descending score, and keeps records of equal score in the order of the search result:
  for every score value, the records of that score appear in \<open>out\<close> as they do in the
  search result.
\<close>

theorem scan_sorted_descending_stable:
  assumes "sub_timedelta_days (clock 0) days_back = Inr t"
    and "map_of (queries (strftime_ymd t)) category = Some q"
    and "search_repositories net q ''stars'' 30 s = (Inr repos, s')"
  shows "\<exists>out. scan_trending_by_category net clock category days_back s = (Inr out, s') \<and>
           sorted_wrt (\<lambda>a b. score b \<le> score a) out \<and>
           mset out = mset (scored_in_order clock repos) \<and>
           (\<forall>v. filter (\<lambda>x. score x = v) out =
                filter (\<lambda>x. score x = v) (scored_in_order clock repos))"
  using assms
  by (simp add: scan_trending_by_category_def score_loop_scored_in_order
        sorted_reverse_descending sorted_reverse_mset sorted_reverse_stable)

theorem scan_sorted_descending_stable_witness:
  "sub_timedelta_days (clock_2024 0) 7 = Inr threshold_2023 \<and>
   map_of (queries (strftime_ymd threshold_2023)) ''hidden_gems'' =
     Some ''stars:10..100 forks:>5 created:>2023-12-25'' \<and>
   search_repositories net_three ''stars:10..100 forks:>5 created:>2023-12-25'' ''stars'' 30
     (init None) =
     (Inr [repo_a, repo_b, repo_c],
      (init None)\<lparr>rate_limit_remaining := 59, requests_sent := [hidden_gems_request]\<rparr>) \<and>
   (\<exists>out. scan_trending_by_category net_three clock_2024 ''hidden_gems'' 7 (init None) =
            (Inr out,
             (init None)\<lparr>rate_limit_remaining := 59,
                          requests_sent := [hidden_gems_request]\<rparr>) \<and>
          sorted_wrt (\<lambda>a b. score b \<le> score a) out \<and>
          mset out = mset (scored_in_order clock_2024 [repo_a, repo_b, repo_c]) \<and>
          (\<forall>v. filter (\<lambda>x. score x = v) out =
               filter (\<lambda>x. score x = v) (scored_in_order clock_2024 [repo_a, repo_b, repo_c])))"
proof -
  have h1: "sub_timedelta_days (clock_2024 0) 7 = Inr threshold_2023"
    by code_simp
  have h2: "map_of (queries (strftime_ymd threshold_2023)) ''hidden_gems'' =
     Some ''stars:10..100 forks:>5 created:>2023-12-25''"
    by code_simp
  have h3: "search_repositories net_three ''stars:10..100 forks:>5 created:>2023-12-25''
     ''stars'' 30 (init None) =
     (Inr [repo_a, repo_b, repo_c],
      (init None)\<lparr>rate_limit_remaining := 59, requests_sent := [hidden_gems_request]\<rparr>)"
    by code_simp
  from h1 h2 h3 scan_sorted_descending_stable [where clock = clock_2024, OF h1 h2 h3]
  show ?thesis by (intro conjI)
qed

text \<open>
  The example of the specification: the search returns records of scores 50, 75 and 50;
  the scan returns the record of score 75 first, then the two of score 50 in the order
  of the search result.
\<close>

lemma scan_example_order:
  "fst (scan_trending_by_category net_three clock_2024 ''hidden_gems'' 7 (init None)) =
     Inr [calculate_interest_score now_2024 repo_b, calculate_interest_score now_2024 repo_a,
          calculate_interest_score now_2024 repo_c] \<and>
   map score [calculate_interest_score now_2024 repo_b, calculate_interest_score now_2024 repo_a,
              calculate_interest_score now_2024 repo_c] = [75, 50, 50]"
  by code_simp

section \<open>\<^verbatim>\<open>scan_trending_by_category\<close>: unknown categories\<close>

lemma map_fst_queries: "map fst (queries d) = category_names"
  by (simp add: queries_def category_names_def)

lemma map_of_queries_None:
  "category \<notin> set category_names \<Longrightarrow> map_of (queries d) category = None"
proof -
  have "fst ` set (queries d) = set category_names"
    using map_fst_queries [of d] by (metis set_map)
  then show "category \<notin> set category_names \<Longrightarrow> map_of (queries d) category = None"
    by (simp add: map_of_eq_None_iff)
qed

lemma div_shift_le:
  fixes z w :: int
  assumes "z \<le> w"
  shows "w div 100 \<le> z div 100 + (w - z)"
proof -
  have "w \<le> z + 100 * (w - z)" using assms by simp
  then have "w div 100 \<le> (z + 100 * (w - z)) div 100" by (rule zdiv_mono1) simp
  also have "\<dots> = z div 100 + (w - z)" by (simp only: div_mult_self2 [of 100 z "w - z"])
  finally show ?thesis .
qed

lemma leap_sum_mono:
  fixes z w p p' q q' r r' :: int
  shows "z \<le> w \<Longrightarrow> p \<le> p' \<Longrightarrow> q' \<le> q + (w - z) \<Longrightarrow> r \<le> r' \<Longrightarrow>
         z * 365 + p - q + r \<le> w * 365 + p' - q' + r'"
  by linarith

lemma days_before_year_mono: "a \<le> b \<Longrightarrow> days_before_year a \<le> days_before_year b"
proof -
  assume le: "a \<le> b"
  then have z: "a - 1 \<le> b - 1" by simp
  have d4: "(a - 1) div 4 \<le> (b - 1) div 4" using z by (rule zdiv_mono1) simp
  have d400: "(a - 1) div 400 \<le> (b - 1) div 400" using z by (rule zdiv_mono1) simp
  have d100: "(b - 1) div 100 \<le> (a - 1) div 100 + ((b - 1) - (a - 1))"
    using z by (rule div_shift_le)
  show ?thesis
    unfolding days_before_year_def Let_def by (rule leap_sum_mono [OF z d4 d100 d400])
qed

lemma div_step:
  fixes y n :: int
  assumes "0 < n"
  shows "y div n = (y - 1) div n + (if y mod n = 0 then 1 else 0)"
proof (cases "y mod n = 0")
  case True
  have "n * (y div n) = y" using True mult_div_mod_eq [of n y] by simp
  then have "y - 1 = n * (y div n - 1) + (n - 1)"
    by (simp add: algebra_simps)
  then have "(y - 1) div n = y div n - 1"
    using assms int_div_pos_eq [of "y - 1" n "y div n - 1" "n - 1"] by simp
  with True show ?thesis by simp
next
  case False
  have "0 \<le> y mod n" "y mod n < n" using assms by simp_all
  with False have r: "0 \<le> y mod n - 1" "y mod n - 1 < n" by simp_all
  have "y - 1 = n * (y div n) + (y mod n - 1)" by simp
  then have "(y - 1) div n = y div n"
    using r int_div_pos_eq [of "y - 1" n "y div n" "y mod n - 1"] by simp
  with False show ?thesis by simp
qed

lemma leap_count_bool:
  "(p100 \<longrightarrow> p4) \<Longrightarrow> (p400 \<longrightarrow> p100) \<Longrightarrow>
   (if p4 then 1 else 0) - (if p100 then 1 else 0) + (if p400 then (1::int) else 0) =
   (if p4 \<and> (\<not> p100 \<or> p400) then 1 else 0)"
  by (cases p4; cases p100; cases p400; simp)

lemma leap_count:
  fixes y :: int
  shows "(if y mod 4 = 0 then 1 else 0) - (if y mod 100 = 0 then 1 else 0) +
         (if y mod 400 = 0 then (1::int) else 0) = (if is_leap y then 1 else 0)"
proof -
  have d1: "(4::int) dvd 100" and d2: "(100::int) dvd 400" by simp_all
  have a: "y mod 100 = 0 \<longrightarrow> y mod 4 = 0"
    unfolding mod_eq_0_iff_dvd by (rule impI) (rule dvd_trans [OF d1])
  have b: "y mod 400 = 0 \<longrightarrow> y mod 100 = 0"
    unfolding mod_eq_0_iff_dvd by (rule impI) (rule dvd_trans [OF d2])
  show ?thesis
    unfolding is_leap_def by (rule leap_count_bool [OF a b])
qed

lemma year_step_lin:
  fixes y a a' b b' c c' c4 c100 c400 l :: int
  shows "a' = a + c4 \<Longrightarrow> b' = b + c100 \<Longrightarrow> c' = c + c400 \<Longrightarrow> c4 - c100 + c400 = l \<Longrightarrow>
         y * 365 + a' - b' + c' = (y - 1) * 365 + a - b + c + 365 + l"
  by (simp add: algebra_simps)

lemma days_before_year_Suc:
  "days_before_year (y + 1) = days_before_year y + 365 + (if is_leap y then 1 else 0)"
proof -
  have s4: "y div 4 = (y - 1) div 4 + (if y mod 4 = 0 then 1 else 0)"
    by (rule div_step) simp
  have s100: "y div 100 = (y - 1) div 100 + (if y mod 100 = 0 then 1 else 0)"
    by (rule div_step) simp
  have s400: "y div 400 = (y - 1) div 400 + (if y mod 400 = 0 then 1 else 0)"
    by (rule div_step) simp
  have "y * 365 + y div 4 - y div 100 + y div 400 =
        (y - 1) * 365 + (y - 1) div 4 - (y - 1) div 100 + (y - 1) div 400 + 365 +
        (if is_leap y then 1 else 0)"
    by (rule year_step_lin [OF s4 s100 s400 leap_count])
  then show ?thesis
    unfolding days_before_year_def Let_def by (simp only: add_diff_cancel_right')
qed

lemma month_cases:
  "1 \<le> m \<Longrightarrow> m \<le> 12 \<Longrightarrow>
   m = 1 \<or> m = 2 \<or> m = 3 \<or> m = 4 \<or> m = 5 \<or> m = 6 \<or> m = 7 \<or> m = 8 \<or> m = 9 \<or> m = 10 \<or>
   m = 11 \<or> m = (12::int)"
  by arith

lemma day_of_year_bounds:
  assumes "1 \<le> m" and "m \<le> 12" and "1 \<le> d" and "d \<le> days_in_month y m"
  shows "1 \<le> days_before_month y m + d \<and>
         days_before_month y m + d \<le> 365 + (if is_leap y then 1 else 0)"
  using month_cases [OF assms(1,2)] assms(3,4)
  by (auto simp: days_before_month_def days_in_month_def DAYS_BEFORE_MONTH_def
        DAYS_IN_MONTH_def split: if_splits)

lemma toordinal_bounds:
  assumes "valid_datetime t"
  shows "days_before_year (dt_year t) + 1 \<le> toordinal t \<and>
         toordinal t \<le> days_before_year (dt_year t + 1)"
  using assms day_of_year_bounds [of "dt_month t" "dt_day t" "dt_year t"]
  by (simp add: valid_datetime_def toordinal_def ymd2ord_def days_before_year_Suc)

text \<open>
  With a lookback of 1 to 30 days, as the specification's contract has it, and the
  current date in year 2 or later, the date threshold is a date.
\<close>

lemma lookback_in_contract_is_date:
  assumes "valid_datetime now" and "2 \<le> dt_year now" and "1 \<le> days_back" and "days_back \<le> 30"
  shows "\<exists>t. sub_timedelta_days now days_back = Inr t"
proof -
  have "days_before_year 2 \<le> days_before_year (dt_year now)"
    using assms(2) by (rule days_before_year_mono)
  moreover have "days_before_year (dt_year now + 1) \<le> days_before_year 10000"
    using assms(1) by (intro days_before_year_mono) (simp add: valid_datetime_def)
  moreover have "days_before_year 2 = 365" "days_before_year 10000 = 3652059"
    by (simp_all add: days_before_year_def)
  ultimately have "0 < toordinal now - days_back \<and> toordinal now - days_back \<le> MAXORDINAL"
    using toordinal_bounds [OF assms(1)] assms(3,4) by (simp add: MAXORDINAL_def)
  then show ?thesis
    using assms(3,4) by (simp add: sub_timedelta_days_def Let_def split: prod.splits)
qed

text \<open>
  Claim C3, as amended. For every category string that is not one of the nine names and
  every lookback value for which the current date minus the lookback is a date (years
  1 to 9999), the scan returns the empty list and appends only the unknown-category
  error; no request is sent and the quota counter keeps its value.
\<close>

theorem scan_unknown_category_no_work:
  assumes "category \<notin> set category_names"
    and "sub_timedelta_days (clock 0) days_back = Inr t"
  shows "scan_trending_by_category net clock category days_back s =
           (Inr [], st_error (''Unknown category: '' @ category) s) \<and>
         requests_sent (st_error (''Unknown category: '' @ category) s) = requests_sent s \<and>
         rate_limit_remaining (st_error (''Unknown category: '' @ category) s) =
           rate_limit_remaining s \<and>
         notices (st_error (''Unknown category: '' @ category) s) =
           notices s @ [Error (''Unknown category: '' @ category)]"
  using assms
  by (simp add: scan_trending_by_category_def map_of_queries_None st_error_def)

theorem scan_unknown_category_no_work_witness:
  "''unknown_category'' \<notin> set category_names \<and>
   sub_timedelta_days (clock_2024 0) 7 = Inr threshold_2023 \<and>
   scan_trending_by_category net_three clock_2024 ''unknown_category'' 7 (init None) =
     (Inr [], st_error ''Unknown category: unknown_category'' (init None)) \<and>
   requests_sent (st_error ''Unknown category: unknown_category'' (init None)) = [] \<and>
   rate_limit_remaining (st_error ''Unknown category: unknown_category'' (init None)) = 60"
proof -
  have h1: "''unknown_category'' \<notin> set category_names"
    by code_simp
  have h2: "sub_timedelta_days (clock_2024 0) 7 = Inr threshold_2023"
    by code_simp
  show ?thesis
    using h1 h2
      scan_unknown_category_no_work [where clock = clock_2024 and net = net_three
        and s = "init None", OF h1 h2]
    by (simp add: init_def st_error_def)
qed

text \<open>
  Claim C3, as stated, fails: the date threshold is computed before the category is
  looked up, and with a lookback of ten million days the subtraction leaves the range of
  dates. The scan raises OverflowError; it neither signals the unknown category nor
  returns a list.
\<close>

theorem scan_unknown_category_counterexample:
  "''unknown_category'' \<notin> set category_names \<and>
   scan_trending_by_category net_three clock_2024 ''unknown_category'' 10000000 (init None) =
     (Inl OverflowError, init None)"
  by code_simp

section \<open>Failures of the search call\<close>

text \<open>
  Claim C9, as amended. \<open>search_repositories\<close> returns a list for every outcome of the
  network call: no exception leaves it. \<open>scan_trending_by_category\<close>, whenever its date
  threshold is a date, returns a list as well. (\<open>get_repos\<close> of src/main.py is not
  covered: it lets every failure through.)
\<close>

theorem search_failures_handled:
  "(\<exists>items s'. search_repositories net query sort_by per_page s = (Inr items, s')) \<and>
   (sub_timedelta_days (clock 0) days_back = Inr t \<longrightarrow>
      (\<exists>out s'. scan_trending_by_category net clock category days_back s = (Inr out, s')))"
proof (intro conjI impI)
  show "\<exists>items s'. search_repositories net query sort_by per_page s = (Inr items, s')"
    by (rule search_repositories_returns)
next
  assume d: "sub_timedelta_days (clock 0) days_back = Inr t"
  show "\<exists>out s'. scan_trending_by_category net clock category days_back s = (Inr out, s')"
  proof (cases "map_of (queries (strftime_ymd t)) category")
    case None
    with d show ?thesis by (simp add: scan_trending_by_category_def)
  next
    case (Some q)
    obtain items s1 where "search_repositories net q ''stars'' 30 s = (Inr items, s1)"
      using search_repositories_returns by blast
    with d Some show ?thesis by (simp add: scan_trending_by_category_def)
  qed
qed

theorem search_failures_handled_witness:
  "sub_timedelta_days (clock_2024 0) 7 = Inr threshold_2023 \<and>
   (\<exists>items s'. search_repositories net_403 ''language:python'' ''stars'' 30 (init None) =
      (Inr items, s')) \<and>
   (\<exists>out s'. scan_trending_by_category net_403 clock_2024 ''hidden_gems'' 7 (init None) =
      (Inr out, s'))"
proof -
  have h: "sub_timedelta_days (clock_2024 0) 7 = Inr threshold_2023"
    by code_simp
  show ?thesis
    using h search_failures_handled [of net_403 "''language:python''" "''stars''" 30 "init None"
        clock_2024 7 threshold_2023 "''hidden_gems''"]
    by blast
qed

text \<open>
  Claim C9, as stated, fails for \<open>get_repos\<close>: on a response with status 403
  \<^verbatim>\<open>raise_for_status\<close> raises and the exception reaches the caller.
\<close>

theorem get_repos_raises_counterexample:
  "get_repos net_403 ''python'' ''stars'' ''desc'' 5 = Inl (HTTPError 403)"
  by code_simp

end
